theory Spec2Isabelle
  imports Main "HOL-Library.Multiset"
begin

section \<open>Python values and the library functions the engine calls\<close>

text \<open>
  The engine of \<^verbatim>\<open>integrate_pipeline.py\<close> works on loosely typed records: every field
  of a row is \<^verbatim>\<open>None\<close>, a bool, an int, a float, a string, a list or a dict. Floats stay
  opaque (type \<open>'f\<close>): the engine only tests them for NaN and for truth, prints them
  and obtains them from \<^verbatim>\<open>float(...)\<close>.

  Strings are \<open>char\<close> lists. The character classes follow Python on ASCII text
  (\<^verbatim>\<open>str.isspace\<close>, \<^verbatim>\<open>str.isdigit\<close>, \<^verbatim>\<open>\w\<close>, \<^verbatim>\<open>str.lower\<close>); a byte above 127 is read as part
  of a letter without case.
\<close>

datatype 'f pyval =
    PNone
  | PBool bool
  | PInt int
  | PFloat 'f
  | PStr string
  | PList "'f pyval list"
  | PDict "(string \<times> 'f pyval) list"

type_synonym 'f pydict = "(string \<times> 'f pyval) list"

datatype py_exn = ValueError | TypeError

text \<open>
  What the module imports and the model does not compute: \<^verbatim>\<open>dateutil.parser.parse\<close>
  (absent when the import fails, line 30-33; year, month and day of the parsed
  date, or the exception), \<^verbatim>\<open>float\<close> on a string, \<^verbatim>\<open>numpy.isnan\<close>, the truth value of a
  float, \<^verbatim>\<open>str\<close> of a float, list or dict, \<^verbatim>\<open>hashlib.sha1(...).hexdigest()\<close> of the
  UTF-8 bytes, and the permutation by which \<^verbatim>\<open>DataFrame.sort_values(ascending=False)\<close>
  reorders rows with the given scores.
\<close>

record 'f env =
  date_parser :: "(string \<Rightarrow> py_exn + nat \<times> nat \<times> nat) option"
  py_float :: "string \<Rightarrow> py_exn + 'f"
  np_isnan :: "'f \<Rightarrow> bool"
  float_bool :: "'f \<Rightarrow> bool"
  py_repr :: "'f pyval \<Rightarrow> string"
  sha1_hexdigest :: "string \<Rightarrow> string"
  argsort_desc :: "nat list \<Rightarrow> nat list"

subsection \<open>Characters and strings\<close>

definition is_space :: "char \<Rightarrow> bool" where
  "is_space c = (c \<in> set [CHR 0x09, CHR 0x0A, CHR 0x0B, CHR 0x0C, CHR 0x0D,
                            CHR 0x1C, CHR 0x1D, CHR 0x1E, CHR 0x1F, CHR 0x20])"

definition is_digit :: "char \<Rightarrow> bool" where
  "is_digit c = (c \<in> set ''0123456789'')"

definition uppercase :: string where
  "uppercase = ''ABCDEFGHIJKLMNOPQRSTUVWXYZ''"

definition lowercase :: string where
  "lowercase = ''abcdefghijklmnopqrstuvwxyz''"

definition is_word :: "char \<Rightarrow> bool" where
  "is_word c = (c \<in> set uppercase \<or> c \<in> set lowercase \<or> is_digit c \<or> c = CHR ''_''
                \<or> 128 \<le> (of_char c :: nat))"

definition lower_char :: "char \<Rightarrow> char" where
  "lower_char c = (case map_of (zip uppercase lowercase) c of Some d \<Rightarrow> d | None \<Rightarrow> c)"

definition upper_char :: "char \<Rightarrow> char" where
  "upper_char c = (case map_of (zip lowercase uppercase) c of Some d \<Rightarrow> d | None \<Rightarrow> c)"

definition py_lower :: "string \<Rightarrow> string" where
  "py_lower s = map lower_char s"

definition py_upper :: "string \<Rightarrow> string" where
  "py_upper s = map upper_char s"

definition py_strip :: "string \<Rightarrow> string" where
  "py_strip s = rev (dropWhile is_space (rev (dropWhile is_space s)))"

text \<open>\<^verbatim>\<open>re.sub(r"\s+", " ", s)\<close>: the flag says that the previous character was a space.\<close>

fun collapse_ws :: "bool \<Rightarrow> string \<Rightarrow> string" where
  "collapse_ws in_run [] = []"
| "collapse_ws in_run (c # cs) =
     (if is_space c then (if in_run then collapse_ws True cs else CHR '' '' # collapse_ws True cs)
      else c # collapse_ws False cs)"

definition sub_spaces :: "string \<Rightarrow> string" where
  "sub_spaces s = collapse_ws False s"

text \<open>\<^verbatim>\<open>re.sub(r"[^\w\s]", "", t)\<close>.\<close>

definition sub_punct :: "string \<Rightarrow> string" where
  "sub_punct t = filter (\<lambda>c. is_word c \<or> is_space c) t"

text \<open>\<^verbatim>\<open>re.split(r"[|,;]", s)\<close> and \<^verbatim>\<open>s.split("|")\<close>: split at every separator character.\<close>

fun split_at :: "(char \<Rightarrow> bool) \<Rightarrow> string \<Rightarrow> string list" where
  "split_at sep [] = [[]]"
| "split_at sep (c # cs) =
     (if sep c then [] # split_at sep cs
      else (case split_at sep cs of [] \<Rightarrow> [[c]] | w # ws \<Rightarrow> (c # w) # ws))"

fun py_join :: "string \<Rightarrow> string list \<Rightarrow> string" where
  "py_join sep [] = []"
| "py_join sep [x] = x"
| "py_join sep (x # y # ys) = x @ sep @ py_join sep (y # ys)"

definition isdigit :: "string \<Rightarrow> bool" where
  "isdigit s = (s \<noteq> [] \<and> list_all is_digit s)"

definition endswith :: "string \<Rightarrow> string \<Rightarrow> bool" where
  "endswith s suf = (length suf \<le> length s \<and> drop (length s - length suf) s = suf)"

subsection \<open>Integers as text\<close>

definition digit_char :: "nat \<Rightarrow> char" where
  "digit_char n = ''0123456789'' ! (n mod 10)"

fun str_nat :: "nat \<Rightarrow> string" where
  "str_nat n = (if n < 10 then [digit_char n] else str_nat (n div 10) @ [digit_char n])"

declare str_nat.simps [simp del]

definition str_int :: "int \<Rightarrow> string" where
  "str_int i = (if i < 0 then CHR ''-'' # str_nat (nat (- i)) else str_nat (nat i))"

definition digit_val :: "char \<Rightarrow> nat" where
  "digit_val c = of_char c - of_char CHR ''0''"

text \<open>\<^verbatim>\<open>int(s)\<close> on a string of ASCII digits.\<close>

definition int_of_digits :: "string \<Rightarrow> nat" where
  "int_of_digits s = foldl (\<lambda>a c. 10 * a + digit_val c) 0 s"

text \<open>The format specs \<^verbatim>\<open>:02d\<close> and \<^verbatim>\<open>:04d\<close>: pad with zeros to the width.\<close>

definition fmt_d :: "nat \<Rightarrow> nat \<Rightarrow> string" where
  "fmt_d w n = replicate (w - length (str_nat n)) CHR ''0'' @ str_nat n"

subsection \<open>Truth and \<^verbatim>\<open>str\<close>\<close>

fun truthy :: "'f env \<Rightarrow> 'f pyval \<Rightarrow> bool" where
  "truthy env PNone = False"
| "truthy env (PBool b) = b"
| "truthy env (PInt i) = (i \<noteq> 0)"
| "truthy env (PFloat x) = float_bool env x"
| "truthy env (PStr s) = (s \<noteq> [])"
| "truthy env (PList xs) = (xs \<noteq> [])"
| "truthy env (PDict d) = (d \<noteq> [])"

fun py_str :: "'f env \<Rightarrow> 'f pyval \<Rightarrow> string" where
  "py_str env PNone = ''None''"
| "py_str env (PBool b) = (if b then ''True'' else ''False'')"
| "py_str env (PInt i) = str_int i"
| "py_str env (PStr s) = s"
| "py_str env v = py_repr env v"

fun is_float :: "'f pyval \<Rightarrow> bool" where
  "is_float (PFloat x) = True"
| "is_float v = False"

text \<open>\<^verbatim>\<open>a or b\<close> on values, and on an optional string (\<^verbatim>\<open>None\<close> and \<^verbatim>\<open>""\<close> are false).\<close>

definition py_or :: "'f env \<Rightarrow> 'f pyval \<Rightarrow> 'f pyval \<Rightarrow> 'f pyval" where
  "py_or env a b = (if truthy env a then a else b)"

fun str_true :: "string option \<Rightarrow> bool" where
  "str_true None = False"
| "str_true (Some s) = (s \<noteq> [])"

definition str_or :: "string option \<Rightarrow> string option \<Rightarrow> string option" where
  "str_or a b = (if str_true a then a else b)"

text \<open>\<^verbatim>\<open>d.get(k)\<close>.\<close>

definition dict_get :: "'f pydict \<Rightarrow> string \<Rightarrow> 'f pyval" where
  "dict_get d k = (case map_of d k of None \<Rightarrow> PNone | Some v \<Rightarrow> v)"

text \<open>
  Exceptions are values: a computation that may raise returns \<open>py_exn + 'a\<close>.
  \<open>and_then\<close> sequences two statements (an exception of the first ends the block),
  \<open>try_except\<close> is \<^verbatim>\<open>try: body; except Exception: handler\<close>.
\<close>

fun and_then :: "py_exn + 'a \<Rightarrow> ('a \<Rightarrow> py_exn + 'b) \<Rightarrow> py_exn + 'b" where
  "and_then (Inl e) f = Inl e"
| "and_then (Inr x) f = f x"

fun try_except :: "py_exn + 'a \<Rightarrow> py_exn + 'a \<Rightarrow> py_exn + 'a" where
  "try_except (Inr x) handler = Inr x"
| "try_except (Inl e) handler = handler"

text \<open>\<^verbatim>\<open>int(s)\<close>: modelled on strings of ASCII digits, a \<^verbatim>\<open>ValueError\<close> otherwise.\<close>

definition py_int :: "string \<Rightarrow> py_exn + nat" where
  "py_int s = (if isdigit s then Inr (int_of_digits s) else Inl ValueError)"

text \<open>\<^verbatim>\<open>sep.join(items)\<close>: a \<^verbatim>\<open>TypeError\<close> when an item is not a string.\<close>

fun join_vals :: "string \<Rightarrow> 'f pyval list \<Rightarrow> py_exn + string list" where
  "join_vals sep [] = Inr []"
| "join_vals sep (PStr s # vs) = and_then (join_vals sep vs) (\<lambda>ss. Inr (s # ss))"
| "join_vals sep (v # vs) = Inl TypeError"

definition str_join :: "string \<Rightarrow> 'f pyval list \<Rightarrow> py_exn + string" where
  "str_join sep items = and_then (join_vals sep items) (\<lambda>ss. Inr (py_join sep ss))"

text \<open>An optional string, an optional float and an optional int as Python values.\<close>

fun of_str :: "string option \<Rightarrow> 'f pyval" where
  "of_str None = PNone"
| "of_str (Some s) = PStr s"

fun of_float :: "'f option \<Rightarrow> 'f pyval" where
  "of_float None = PNone"
| "of_float (Some x) = PFloat x"

fun of_nat_opt :: "nat option \<Rightarrow> 'f pyval" where
  "of_nat_opt None = PNone"
| "of_nat_opt (Some n) = PInt (int n)"

subsection \<open>The leading date patterns of lines 179-187 and 258\<close>

text \<open>\<^verbatim>\<open>^(\d{4})\<close>: the four digits and the rest of the string.\<close>

definition d4 :: "string \<Rightarrow> (string \<times> string) option" where
  "d4 s = (if 4 \<le> length s \<and> list_all is_digit (take 4 s) then Some (take 4 s, drop 4 s) else None)"

text \<open>\<^verbatim>\<open>(\d{1,2})\<close>: the ways to match it, the greedy one first, each with the rest.\<close>

fun d12 :: "string \<Rightarrow> (string \<times> string) list" where
  "d12 [] = []"
| "d12 [a] = (if is_digit a then [([a], [])] else [])"
| "d12 (a # b # r) =
     (if is_digit a then (if is_digit b then [([a, b], r), ([a], b # r)] else [([a], b # r)])
      else [])"

fun after_dash :: "string \<Rightarrow> string option" where
  "after_dash [] = None"
| "after_dash (c # r) = (if c = CHR ''-'' then Some r else None)"

definition match_y :: "string \<Rightarrow> string option" where
  "match_y s = map_option fst (d4 s)"

definition match_ym :: "string \<Rightarrow> (string \<times> string) option" where
  "match_ym s =
     (case d4 s of None \<Rightarrow> None
      | Some (y, r) \<Rightarrow>
          (case after_dash r of None \<Rightarrow> None
           | Some r1 \<Rightarrow> (case d12 r1 of [] \<Rightarrow> None | (m, r2) # alts \<Rightarrow> Some (y, m))))"

definition match_ymd :: "string \<Rightarrow> (string \<times> string \<times> string) option" where
  "match_ymd s =
     (case d4 s of None \<Rightarrow> None
      | Some (y, r) \<Rightarrow>
          (case after_dash r of None \<Rightarrow> None
           | Some r1 \<Rightarrow>
               (case List.map_filter
                       (\<lambda>(m, r2). case after_dash r2 of None \<Rightarrow> None
                          | Some r3 \<Rightarrow> (case d12 r3 of [] \<Rightarrow> None | (d, r4) # alts \<Rightarrow> Some (y, m, d)))
                       (d12 r1)
                of [] \<Rightarrow> None | hit # later \<Rightarrow> Some hit)))"

section \<open>Normalisation (lines 117-208)\<close>

definition normalize_str :: "'f env \<Rightarrow> 'f pyval \<Rightarrow> string option" where
  "normalize_str env val =
     (if val = PNone then None
      else let s = py_strip (py_str env val) in
        if s = [] \<or> py_lower s = ''nan'' then None
        else let s = (if endswith s ''.0'' \<and> isdigit (take (length s - 2) s)
                      then take (length s - 2) s else s)
             in Some (sub_spaces s))"

definition normalize_title :: "'f env \<Rightarrow> 'f pyval \<Rightarrow> string option" where
  "normalize_title env title =
     (let t = normalize_str env title in
      if \<not> str_true t then None
      else Some (py_strip (sub_spaces (sub_punct (py_lower (the t))))))"

definition normalize_author :: "'f env \<Rightarrow> 'f pyval \<Rightarrow> string list" where
  "normalize_author env auth =
     (if \<not> truthy env auth \<or> is_float auth then []
      else (case (case auth of
                    PStr s \<Rightarrow> Some (map PStr (split_at (\<lambda>c. c \<in> set ''|,;'') s))
                  | PList xs \<Rightarrow> Some xs
                  | _ \<Rightarrow> None)
            of None \<Rightarrow> []
             | Some parts \<Rightarrow>
                 map (\<lambda>p. the (normalize_str env p))
                     (filter (\<lambda>p. str_true (normalize_str env p)) parts)))"

definition normalize_categories :: "'f env \<Rightarrow> 'f pyval \<Rightarrow> string list" where
  "normalize_categories env val =
     (if \<not> truthy env val \<or> is_float val then []
      else (case val of
              PList xs \<Rightarrow>
                map (\<lambda>x. py_strip (py_str env x))
                    (filter (\<lambda>x. truthy env x \<and> py_strip (py_str env x) \<noteq> []) xs)
            | _ \<Rightarrow>
                (let s = py_str env val in
                 if CHR ''|'' \<in> set s
                 then filter (\<lambda>x. x \<noteq> []) (map py_strip (split_at (\<lambda>c. c = CHR ''|'') s))
                 else [py_strip s])))"

definition get_first_author :: "'f env \<Rightarrow> 'f pyval \<Rightarrow> string" where
  "get_first_author env auth =
     (case normalize_author env auth of [] \<Rightarrow> [] | a # others \<Rightarrow> a)"

text \<open>The try block of \<^verbatim>\<open>iso_date\<close> (lines 170-175), for the installed parser.\<close>

definition iso_date_parsed :: "(string \<Rightarrow> py_exn + nat \<times> nat \<times> nat) \<Rightarrow> string \<Rightarrow> py_exn + string option" where
  "iso_date_parsed parse s =
     and_then (parse s) (\<lambda>(year, month, day).
       if day \<noteq> 1 then Inr (Some (fmt_d 4 year @ ''-'' @ fmt_d 2 month @ ''-'' @ fmt_d 2 day))
       else if month \<noteq> 1 then Inr (Some (fmt_d 4 year @ ''-'' @ fmt_d 2 month))
       else Inr (Some (fmt_d 4 year)))"

text \<open>The fallback patterns (lines 179-188).\<close>

definition iso_date_fallback :: "string \<Rightarrow> py_exn + string option" where
  "iso_date_fallback s =
     (case match_ymd s of
        Some (y, m, d) \<Rightarrow>
          and_then (py_int m) (\<lambda>mi. and_then (py_int d) (\<lambda>di.
            Inr (Some (y @ ''-'' @ fmt_d 2 mi @ ''-'' @ fmt_d 2 di))))
      | None \<Rightarrow>
          (case match_ym s of
             Some (y, m) \<Rightarrow> and_then (py_int m) (\<lambda>mi. Inr (Some (y @ ''-'' @ fmt_d 2 mi)))
           | None \<Rightarrow> (case match_y s of Some y \<Rightarrow> Inr (Some y) | None \<Rightarrow> Inr None)))"

definition iso_date :: "'f env \<Rightarrow> 'f pyval \<Rightarrow> py_exn + string option" where
  "iso_date env val =
     (if \<not> truthy env val \<or> is_float val then Inr None
      else let s = py_strip (py_str env val) in
        if s = [] \<or> py_lower s = ''nan'' then Inr None
        else (case date_parser env of
                None \<Rightarrow> iso_date_fallback s
              | Some parse \<Rightarrow> try_except (iso_date_parsed parse s) (iso_date_fallback s)))"

definition currency_symbols :: "(string \<times> string) list" where
  "currency_symbols =
     [([CHR 0xE2, CHR 0x82, CHR 0xAC], ''EUR''), (''$'', ''USD''), ([CHR 0xC2, CHR 0xA3], ''GBP'')]"

definition normalize_currency :: "'f env \<Rightarrow> 'f pyval \<Rightarrow> string option" where
  "normalize_currency env cur =
     (if \<not> truthy env cur \<or> is_float cur then None
      else let s = py_upper (py_strip (py_str env cur)) in
        Some (case map_of currency_symbols s of Some code \<Rightarrow> code | None \<Rightarrow> take 3 s))"

definition safe_decimal :: "'f env \<Rightarrow> 'f pyval \<Rightarrow> py_exn + 'f option" where
  "safe_decimal env v =
     (case v of
        PNone \<Rightarrow> Inr None
      | PFloat x \<Rightarrow> Inr (if \<not> np_isnan env x then Some x else None)
      | _ \<Rightarrow>
          try_except
            (and_then (py_float env (map (\<lambda>c. if c = CHR '','' then CHR ''.'' else c) (py_str env v)))
               (\<lambda>x. Inr (Some x)))
            (Inr None))"

definition stable_hash_id :: "'f env \<Rightarrow> 'f pyval list \<Rightarrow> py_exn + string" where
  "stable_hash_id env items =
     and_then (str_join ''||'' (map (\<lambda>f. py_or env f (PStr [])) items))
       (\<lambda>joined. Inr (sha1_hexdigest env joined))"

section \<open>Merge logic (lines 214-307)\<close>

definition choose_survivor :: "'f env \<Rightarrow> 'f pyval \<Rightarrow> 'f pyval \<Rightarrow> string \<Rightarrow> 'f pyval" where
  "choose_survivor env val_g val_gg prefer =
     (if val_g = PNone then val_gg
      else if val_gg = PNone then val_g
      else if py_strip (py_str env val_g) = py_strip (py_str env val_gg) then val_g
      else if prefer = ''goodreads'' then val_g else val_gg)"

text \<open>
  The two loops of lines 231-236 and 243-248: the normalised items in first-occurrence
  order, each once; \<open>seen\<close> holds what was already added.
\<close>

fun merge_unique :: "'f env \<Rightarrow> string list \<Rightarrow> string list \<Rightarrow> string list" where
  "merge_unique env seen [] = []"
| "merge_unique env seen (a # rest) =
     (let n = normalize_str env (PStr a) in
      if str_true n \<and> the n \<notin> set seen then the n # merge_unique env (the n # seen) rest
      else merge_unique env seen rest)"

definition or_empty :: "string option \<Rightarrow> string" where
  "or_empty a = (if str_true a then the a else [])"

text \<open>Lines 256-260: the leading four digits of the merged date, as an int.\<close>

definition year_of :: "'f env \<Rightarrow> 'f pyval \<Rightarrow> py_exn + nat option" where
  "year_of env pub_date =
     (if truthy env pub_date
      then (case pub_date of
              PStr s \<Rightarrow> (case match_y s of
                           Some y \<Rightarrow> and_then (py_int y) (\<lambda>n. Inr (Some n))
                         | None \<Rightarrow> Inr None)
            | _ \<Rightarrow> Inl TypeError)
      else Inr None)"

definition merge_records :: "'f env \<Rightarrow> 'f pydict \<Rightarrow> 'f pydict \<Rightarrow> py_exn + 'f pydict" where
  "merge_records env g gg =
     (let t_g = normalize_str env (dict_get g ''title'');
          t_gg = (if gg \<noteq> [] then normalize_str env (dict_get gg ''title'') else None);
          a_g = normalize_author env (dict_get g ''authors'');
          a_gg = (if gg \<noteq> [] then normalize_author env (dict_get gg ''authors'') else []);
          merged_authors = merge_unique env [] (a_g @ a_gg);
          authors_str = (if merged_authors \<noteq> [] then Some (py_join '' | '' merged_authors) else None);
          first_author = (case merged_authors of [] \<Rightarrow> None | a # others \<Rightarrow> Some a);
          cats_g = normalize_categories env (dict_get g ''categories'');
          cats_gg = normalize_categories env (if gg \<noteq> [] then dict_get gg ''categories'' else PNone);
          merged_cats = merge_unique env [] (cats_g @ cats_gg);
          categories_str = (if merged_cats \<noteq> [] then Some (py_join '' | '' merged_cats) else None)
      in
      and_then (iso_date env (dict_get g ''pub_date'')) (\<lambda>pub_g.
      and_then (if gg \<noteq> [] then iso_date env (dict_get gg ''pub_date'') else Inr None) (\<lambda>pub_gg.
      let pub_date = choose_survivor env (of_str pub_g) (of_str pub_gg) ''goodreads'' in
      and_then (year_of env pub_date) (\<lambda>pub_year.
      and_then (safe_decimal env (if gg \<noteq> [] then dict_get gg ''price_amount'' else PNone)) (\<lambda>amt_gg.
      and_then (if truthy env (of_float amt_gg) then Inr amt_gg
                else safe_decimal env (dict_get g ''price_amount'')) (\<lambda>price_amt.
      let price_cur = str_or (normalize_currency env (if gg \<noteq> [] then dict_get gg ''price_currency'' else PNone))
                             (normalize_currency env (dict_get g ''price_currency''));
          isbn13 = str_or (normalize_str env (dict_get g ''isbn13''))
                          (normalize_str env (if gg \<noteq> [] then dict_get gg ''isbn13'' else PNone));
          isbn10 = str_or (normalize_str env (py_or env (dict_get g ''isbn10'') (dict_get g ''isbn'')))
                          (normalize_str env (if gg \<noteq> [] then dict_get gg ''isbn10'' else PNone));
          title = choose_survivor env (of_str t_g) (of_str t_gg) ''goodreads'';
          publisher = choose_survivor env (of_str (normalize_str env (dict_get g ''publisher'')))
                        (of_str (normalize_str env (if gg \<noteq> [] then dict_get gg ''publisher'' else PNone)))
                        ''goodreads'';
          score_g = length (filter id
                      [str_true t_g, a_g \<noteq> [], str_true pub_g, truthy env (dict_get g ''num_pages'')]);
          score_gg = length (filter id
                      [str_true t_gg, a_gg \<noteq> [], str_true pub_gg, truthy env (of_float price_amt),
                       str_true (normalize_str env (if gg \<noteq> [] then dict_get gg ''isbn13'' else PNone))]);
          pref = (if score_gg \<le> score_g then ''goodreads'' else ''google'');
          url_pref = (if score_gg \<le> score_g then dict_get g ''url''
                      else (if gg \<noteq> [] then dict_get gg ''url'' else dict_get g ''url''));
          norm_title_hash = normalize_title env title
      in
      and_then (if str_true isbn13 then Inr (the isbn13)
                else stable_hash_id env
                       [PStr (or_empty norm_title_hash), PStr (or_empty first_author),
                        py_or env publisher (PStr []),
                        PStr (py_str env (py_or env (of_nat_opt pub_year) (PStr [])))]) (\<lambda>cid.
      Inr [(''canonical_id'', PStr cid),
           (''isbn13'', of_str isbn13),
           (''isbn10'', of_str isbn10),
           (''title'', title),
           (''title_normalized'', of_str norm_title_hash),
           (''authors'', of_str authors_str),
           (''first_author'', of_str first_author),
           (''publisher'', publisher),
           (''pub_date'', pub_date),
           (''pub_year'', of_nat_opt pub_year),
           (''language'', py_or env (dict_get g ''language'')
                            (if gg \<noteq> [] then dict_get gg ''language'' else PNone)),
           (''categories'', of_str categories_str),
           (''num_pages'', choose_survivor env (dict_get g ''num_pages'')
                             (if gg \<noteq> [] then dict_get gg ''pageCount'' else PNone) ''goodreads''),
           (''format'', choose_survivor env (dict_get g ''format'')
                          (if gg \<noteq> [] then dict_get gg ''format'' else PNone) ''goodreads''),
           (''description'', choose_survivor env (dict_get g ''desc'')
                               (if gg \<noteq> [] then dict_get gg ''description'' else PNone) ''goodreads''),
           (''rating_value'', dict_get g ''rating_value''),
           (''rating_count'', dict_get g ''rating_count''),
           (''price_amount'', of_float price_amt),
           (''price_currency'', of_str price_cur),
           (''source_preference'', PStr pref),
           (''most_complete_url'', url_pref),
           (''ingestion_date_goodreads'', dict_get g ''ingestion_date''),
           (''ingestion_date_google'', if gg \<noteq> [] then dict_get gg ''ingestion_date'' else PNone)])))))))"

section \<open>The pipeline (lines 313-387)\<close>

text \<open>
  \<open>run_pipeline\<close> is modelled from the two record lists \<^verbatim>\<open>gr_recs\<close> and \<^verbatim>\<open>recs\<close> that
  the readers hand over, and the timestamp \<^verbatim>\<open>ts\<close> of \<^verbatim>\<open>now_ts()\<close>, to the deduplicated
  rows of \<^verbatim>\<open>df_final\<close> and the rows of \<^verbatim>\<open>df_detail\<close>. Reading, saving and the metrics
  are input and output around it. A row of a data frame is the dict it was built from:
  the column types pandas infers are not modelled, only which cells are null.
\<close>

record 'f indexes =
  google_by_gbid :: "string \<rightharpoonup> 'f pydict"
  google_by_isbn13 :: "string \<rightharpoonup> 'f pydict"
  google_by_key :: "string \<rightharpoonup> 'f pydict"

text \<open>\<^verbatim>\<open>d.setdefault(k, r)\<close>.\<close>

definition setdefault :: "(string \<rightharpoonup> 'a) \<Rightarrow> string \<Rightarrow> 'a \<Rightarrow> (string \<rightharpoonup> 'a)" where
  "setdefault d k r = (case d k of None \<Rightarrow> d(k \<mapsto> r) | Some old \<Rightarrow> d)"

text \<open>The body of the loop of lines 329-339.\<close>

definition index_record :: "'f env \<Rightarrow> 'f indexes \<Rightarrow> 'f pydict \<Rightarrow> 'f indexes" where
  "index_record env idx r =
     (let by_gbid = (if truthy env (dict_get r ''gb_id'')
                     then (google_by_gbid idx)(py_str env (dict_get r ''gb_id'') \<mapsto> r)
                     else google_by_gbid idx);
          isbn = normalize_str env (dict_get r ''isbn13'');
          by_isbn13 = (if str_true isbn then (google_by_isbn13 idx)(the isbn \<mapsto> r)
                       else google_by_isbn13 idx);
          tnorm = normalize_title env (dict_get r ''title'');
          afirst = get_first_author env (dict_get r ''authors'');
          by_key = (if str_true tnorm \<and> afirst \<noteq> []
                    then setdefault (google_by_key idx) (the tnorm @ ''||'' @ afirst) r
                    else google_by_key idx)
      in \<lparr>google_by_gbid = by_gbid, google_by_isbn13 = by_isbn13, google_by_key = by_key\<rparr>)"

definition build_indexes :: "'f env \<Rightarrow> 'f pydict list \<Rightarrow> 'f indexes" where
  "build_indexes env recs =
     foldl (index_record env)
       \<lparr>google_by_gbid = Map.empty, google_by_isbn13 = Map.empty, google_by_key = Map.empty\<rparr> recs"

text \<open>Lines 348-366: the matched record, if any, and the method.\<close>

definition gid_of :: "'f env \<Rightarrow> 'f pydict \<Rightarrow> string" where
  "gid_of env g = (if dict_get g ''id'' \<noteq> PNone then py_str env (dict_get g ''id'') else [])"

definition match_google :: "'f env \<Rightarrow> 'f indexes \<Rightarrow> 'f pydict \<Rightarrow> 'f pydict option \<times> string" where
  "match_google env idx g =
     (let gid = gid_of env g in
      if gid \<noteq> [] \<and> google_by_gbid idx gid \<noteq> None then (google_by_gbid idx gid, ''id'')
      else
        let isbn = normalize_str env (py_or env (dict_get g ''isbn13'') (dict_get g ''isbn'')) in
        if str_true isbn \<and> google_by_isbn13 idx (the isbn) \<noteq> None
        then (google_by_isbn13 idx (the isbn), ''isbn'')
        else
          let tnorm = normalize_title env (dict_get g ''title'');
              afirst = get_first_author env (dict_get g ''authors'');
              key = (if str_true tnorm \<and> afirst \<noteq> [] then Some (the tnorm @ ''||'' @ afirst) else None)
          in if str_true key \<and> google_by_key idx (the key) \<noteq> None
             then (google_by_key idx (the key), ''heuristic'')
             else (None, ''none''))"

text \<open>Lines 368-377: the merged row and the detail row of one primary record.\<close>

definition merge_one :: "'f env \<Rightarrow> 'f indexes \<Rightarrow> string \<Rightarrow> 'f pydict \<Rightarrow> py_exn + 'f pydict \<times> 'f pydict" where
  "merge_one env idx ts g =
     (case match_google env idx g of
        (matched, method) \<Rightarrow>
          and_then (merge_records env g (case matched of None \<Rightarrow> [] | Some r \<Rightarrow> r)) (\<lambda>merged.
            Inr (merged,
                 [(''canonical_id'', dict_get merged ''canonical_id''),
                  (''gb_id'', PStr (gid_of env g)),
                  (''from_google'', PBool (case matched of None \<Rightarrow> False | Some r \<Rightarrow> r \<noteq> [])),
                  (''merge_method'', PStr method),
                  (''timestamp'', PStr ts)])))"

fun merge_all :: "'f env \<Rightarrow> 'f indexes \<Rightarrow> string \<Rightarrow> 'f pydict list \<Rightarrow> py_exn + 'f pydict list \<times> 'f pydict list" where
  "merge_all env idx ts [] = Inr ([], [])"
| "merge_all env idx ts (g # gr_recs) =
     and_then (merge_one env idx ts g) (\<lambda>(merged, detail).
       and_then (merge_all env idx ts gr_recs) (\<lambda>(merged_rows, detail_rows).
         Inr (merged # merged_rows, detail # detail_rows)))"

text \<open>
  Lines 383-387. \<^verbatim>\<open>notnull\<close> counts a cell unless it is \<^verbatim>\<open>None\<close> or NaN; the score is
  taken over the columns of the merged row, before \<^verbatim>\<open>_score\<close> is added.
  \<^verbatim>\<open>drop_duplicates(subset=["canonical_id"], keep="first")\<close> keeps a row when no earlier
  row has its \<^verbatim>\<open>canonical_id\<close>.
\<close>

definition notnull :: "'f env \<Rightarrow> 'f pyval \<Rightarrow> bool" where
  "notnull env v = (case v of PNone \<Rightarrow> False | PFloat x \<Rightarrow> \<not> np_isnan env x | _ \<Rightarrow> True)"

definition row_score :: "'f env \<Rightarrow> 'f pydict \<Rightarrow> nat" where
  "row_score env row = length (filter (\<lambda>(k, v). notnull env v) row)"

definition sort_values :: "'f env \<Rightarrow> 'f pydict list \<Rightarrow> 'f pydict list" where
  "sort_values env rows = map (\<lambda>i. rows ! i) (argsort_desc env (map (row_score env) rows))"

fun drop_duplicates :: "'f pyval list \<Rightarrow> 'f pydict list \<Rightarrow> 'f pydict list" where
  "drop_duplicates seen [] = []"
| "drop_duplicates seen (row # rows) =
     (if dict_get row ''canonical_id'' \<in> set seen then drop_duplicates seen rows
      else row # drop_duplicates (dict_get row ''canonical_id'' # seen) rows)"

definition deduplicate :: "'f env \<Rightarrow> 'f pydict list \<Rightarrow> 'f pydict list" where
  "deduplicate env merged_rows =
     (if merged_rows = [] then [] else drop_duplicates [] (sort_values env merged_rows))"

definition run_pipeline :: "'f env \<Rightarrow> string \<Rightarrow> 'f pydict list \<Rightarrow> 'f pydict list \<Rightarrow> py_exn + 'f pydict list \<times> 'f pydict list" where
  "run_pipeline env ts gr_recs recs =
     and_then (merge_all env (build_indexes env recs) ts gr_recs) (\<lambda>(merged_rows, detail_rows).
       Inr (deduplicate env merged_rows, detail_rows))"

section \<open>Notions the properties are stated with\<close>

definition canonical_id :: "'f pydict \<Rightarrow> 'f pyval" where
  "canonical_id row = dict_get row ''canonical_id''"

subsection \<open>The three strategies of the matcher, each on its own\<close>




subsection \<open>The key under which each index files a secondary record\<close>






subsection \<open>The text a field of the merged row contributes to the identity hash\<close>

text \<open>A string field, with null replaced by the empty string.\<close>

fun text_or_empty :: "'f pyval \<Rightarrow> string" where
  "text_or_empty (PStr s) = s"
| "text_or_empty v = []"

text \<open>\<^verbatim>\<open>pub_year\<close> as a string, null replaced by the empty string.\<close>

fun year_text :: "'f pyval \<Rightarrow> string" where
  "year_text (PInt y) = str_int y"
| "year_text v = []"

text \<open>What line 281 hashes: a year of 0 is replaced by the empty string as well.\<close>

fun year_text_nonzero :: "'f pyval \<Rightarrow> string" where
  "year_text_nonzero (PInt y) = (if y = 0 then [] else str_int y)"
| "year_text_nonzero v = []"

text \<open>
  The identity of a merged row from its own fields: the ISBN-13 when the row has one,
  otherwise the digest of the four texts joined with \<^verbatim>\<open>||\<close>. \<open>identity_claimed\<close> takes
  \<^verbatim>\<open>pub_year\<close> as a string; \<open>identity_of\<close> is what line 281 computes.
\<close>

definition identity_claimed :: "'f env \<Rightarrow> 'f pyval \<Rightarrow> 'f pyval \<Rightarrow> 'f pyval \<Rightarrow> 'f pyval \<Rightarrow> 'f pyval \<Rightarrow> 'f pyval" where
  "identity_claimed env isbn13 title_norm first_author publisher pub_year =
     (if isbn13 \<noteq> PNone then isbn13
      else PStr (sha1_hexdigest env
             (text_or_empty title_norm @ ''||'' @ text_or_empty first_author @ ''||''
              @ text_or_empty publisher @ ''||'' @ year_text pub_year)))"

definition identity_of :: "'f env \<Rightarrow> 'f pyval \<Rightarrow> 'f pyval \<Rightarrow> 'f pyval \<Rightarrow> 'f pyval \<Rightarrow> 'f pyval \<Rightarrow> 'f pyval" where
  "identity_of env isbn13 title_norm first_author publisher pub_year =
     (if isbn13 \<noteq> PNone then isbn13
      else PStr (sha1_hexdigest env
             (text_or_empty title_norm @ ''||'' @ text_or_empty first_author @ ''||''
              @ text_or_empty publisher @ ''||'' @ year_text_nonzero pub_year)))"

subsection \<open>Sorting by score\<close>


text \<open>The stable order: scores descending, equal scores in input order.\<close>

definition argsort_stable :: "nat list \<Rightarrow> nat list" where
  "argsort_stable ks = sort_key (\<lambda>i. - int (ks ! i)) [0..<length ks]"


text \<open>An order that is descending as well and puts the later of two equal scores first.\<close>

definition argsort_later_first :: "nat list \<Rightarrow> nat list" where
  "argsort_later_first ks = rev (sort_key (\<lambda>i. ks ! i) [0..<length ks])"

subsection \<open>Items \<^verbatim>\<open>stable_hash_id\<close> can join\<close>


subsection \<open>Concrete environments\<close>

text \<open>
  An environment to evaluate the model in: no \<^verbatim>\<open>dateutil\<close>, the floats are the integers
  (none is NaN, \<^verbatim>\<open>float\<close> reads a string of digits), the digest is the tagged text
  itself (injective, so equal digests mean equal text), the sort is the stable one.
\<close>

definition env0 :: "int env" where
  "env0 = \<lparr>date_parser = None,
           py_float = (\<lambda>s. if isdigit s then Inr (int (int_of_digits s)) else Inl ValueError),
           np_isnan = (\<lambda>x. False),
           float_bool = (\<lambda>x. x \<noteq> 0),
           py_repr = (\<lambda>v. ''?''),
           sha1_hexdigest = (\<lambda>s. ''sha1:'' @ s),
           argsort_desc = argsort_stable\<rparr>"

text \<open>The same with \<^verbatim>\<open>dateutil\<close> installed, as far as it reads the date \<^verbatim>\<open>2020-05-01\<close>.\<close>

definition env_dateutil :: "int env" where
  "env_dateutil =
     env0\<lparr>date_parser :=
            Some (\<lambda>s. if s = ''2020-05-01'' then Inr (2020, 5, 1) else Inl ValueError)\<rparr>"

text \<open>The same with a sort that is not stable.\<close>

definition env_unstable :: "int env" where
  "env_unstable = env0\<lparr>argsort_desc := argsort_later_first\<rparr>"

section \<open>Evaluation and totality lemmas\<close>

lemmas char_defs = is_space_def is_digit_def is_word_def lower_char_def upper_char_def
  uppercase_def lowercase_def digit_char_def digit_val_def

lemmas str_defs = py_lower_def py_upper_def py_strip_def sub_spaces_def sub_punct_def isdigit_def
  endswith_def str_int_def int_of_digits_def fmt_d_def str_nat.simps

lemmas norm_defs = normalize_str_def normalize_title_def normalize_author_def
  normalize_categories_def get_first_author_def iso_date_def iso_date_fallback_def
  iso_date_parsed_def normalize_currency_def currency_symbols_def safe_decimal_def
  stable_hash_id_def str_join_def py_int_def d4_def match_y_def match_ym_def match_ymd_def
  py_or_def str_or_def or_empty_def dict_get_def

lemmas merge_defs = choose_survivor_def year_of_def merge_records_def Let_def

lemmas env_defs = env0_def env_dateutil_def env_unstable_def

lemma d12_digits: "(m, r) \<in> set (d12 s) \<Longrightarrow> isdigit m"
  by (induction s rule: d12.induct) (auto simp: isdigit_def split: if_splits)

lemma d12_head_digits: "d12 s = (m, r) # alts \<Longrightarrow> isdigit m"
  using d12_digits [of m r s] by simp

lemma d4_digits: "d4 s = Some (y, r) \<Longrightarrow> isdigit y"
  by (auto simp: d4_def isdigit_def split: if_splits)

lemma match_y_digits: "match_y s = Some y \<Longrightarrow> isdigit y"
  by (auto simp: match_y_def dest: d4_digits)

lemma match_ym_digits: "match_ym s = Some (y, m) \<Longrightarrow> isdigit m"
  by (auto simp: match_ym_def split: option.splits list.splits dest: d12_head_digits)

lemma map_filter_mem: "x \<in> set (List.map_filter f xs) \<Longrightarrow> \<exists>y \<in> set xs. f y = Some x"
  by (induction xs) (auto split: option.splits)

lemma match_ymd_digits:
  assumes "match_ymd s = Some (y, m, d)"
  shows "isdigit m \<and> isdigit d"
proof -
  from assms obtain y0 r1 later where
    hit: "List.map_filter
            (\<lambda>(m, r2). case after_dash r2 of None \<Rightarrow> None
               | Some r3 \<Rightarrow> (case d12 r3 of [] \<Rightarrow> None | (d, r4) # alts \<Rightarrow> Some (y0, m, d)))
            (d12 r1) = (y, m, d) # later"
    by (auto simp: match_ymd_def split: option.splits list.splits)
  then have "(y, m, d) \<in> set (List.map_filter
            (\<lambda>(m, r2). case after_dash r2 of None \<Rightarrow> None
               | Some r3 \<Rightarrow> (case d12 r3 of [] \<Rightarrow> None | (d, r4) # alts \<Rightarrow> Some (y0, m, d)))
            (d12 r1))"
    by simp
  from map_filter_mem [OF this] obtain m' r2 where
    mem: "(m', r2) \<in> set (d12 r1)" and
    some: "(case after_dash r2 of None \<Rightarrow> None
            | Some r3 \<Rightarrow> (case d12 r3 of [] \<Rightarrow> None | (d, r4) # alts \<Rightarrow> Some (y0, m', d))) = Some (y, m, d)"
    by auto
  from some obtain r3 r4 alts where "m' = m" and "d12 r3 = (d, r4) # alts"
    by (auto split: option.splits list.splits)
  with mem show ?thesis
    by (auto dest: d12_digits d12_head_digits)
qed

text \<open>The \<^verbatim>\<open>int(...)\<close> calls of the fallback only see digits, so the fallback returns.\<close>

lemma iso_date_fallback_total: "\<exists>r. iso_date_fallback s = Inr r"
proof (cases "match_ymd s")
  case (Some ymd)
  obtain y m d where ymd: "ymd = (y, m, d)" by (cases ymd) auto
  with Some have "isdigit m" "isdigit d" using match_ymd_digits by blast+
  with Some ymd show ?thesis by (simp add: iso_date_fallback_def py_int_def)
next
  case None
  show ?thesis
  proof (cases "match_ym s")
    case (Some ym)
    obtain y m where ym: "ym = (y, m)" by (cases ym) auto
    with Some have "isdigit m" using match_ym_digits by blast
    with Some ym None show ?thesis by (simp add: iso_date_fallback_def py_int_def)
  next
    case nym: None
    with None show ?thesis by (simp add: iso_date_fallback_def split: option.splits)
  qed
qed

lemma iso_date_parsed_cases:
  "(\<exists>e. iso_date_parsed parse s = Inl e) \<or> (\<exists>r. iso_date_parsed parse s = Inr (Some r))"
  by (cases "parse s") (auto simp: iso_date_parsed_def split: prod.splits)

lemma iso_date_total: "\<exists>r. iso_date env v = Inr r"
proof -
  have "\<exists>r. try_except (iso_date_parsed parse s) (iso_date_fallback s) = Inr r" for parse s
    using iso_date_parsed_cases [of parse s] iso_date_fallback_total [of s] by auto
  then show ?thesis
    using iso_date_fallback_total
    by (auto simp: iso_date_def Let_def split: option.splits)
qed

lemma safe_decimal_total: "\<exists>r. safe_decimal env v = Inr r"
proof -
  have "\<exists>r. try_except (and_then (py_float env s) (\<lambda>x. Inr (Some x))) (Inr None) = Inr r" for s
    by (cases "py_float env s") auto
  then show ?thesis
    by (cases v) (auto simp: safe_decimal_def)
qed

lemma choose_survivor_str:
  "choose_survivor env (of_str a) (of_str b) p = PNone \<or>
   (\<exists>s. choose_survivor env (of_str a) (of_str b) p = PStr s)"
  by (cases a; cases b) (auto simp: choose_survivor_def)

lemma year_of_str_total: "\<exists>r. year_of env (PStr s) = Inr r"
proof (cases "match_y s")
  case None then show ?thesis by (simp add: year_of_def)
next
  case (Some y)
  then have "isdigit y" by (rule match_y_digits)
  with Some show ?thesis by (simp add: year_of_def py_int_def)
qed

lemma year_of_total:
  assumes "v = PNone \<or> (\<exists>s. v = PStr s)"
  shows "\<exists>r. year_of env v = Inr r"
  using assms
proof
  assume "v = PNone" then show ?thesis by (simp add: year_of_def)
next
  assume "\<exists>s. v = PStr s" then show ?thesis using year_of_str_total by auto
qed

lemma py_or_str: "py_or env (PStr s) (PStr []) = PStr s"
  by (simp add: py_or_def)

lemma stable_hash_id_strs:
  "stable_hash_id env [PStr a, PStr b, PStr c, PStr d] =
     Inr (sha1_hexdigest env (a @ ''||'' @ b @ ''||'' @ c @ ''||'' @ d))"
  by (simp add: stable_hash_id_def str_join_def py_or_str)

lemma publisher_item:
  "py_or env (choose_survivor env (of_str a) (of_str b) p) (PStr []) =
     PStr (text_or_empty (choose_survivor env (of_str a) (of_str b) p))"
  using choose_survivor_str [of env a b p] by (auto simp: py_or_def)

lemma and_then_total:
  assumes "\<exists>x. m = Inr x" and "\<And>x. m = Inr x \<Longrightarrow> P (f x)"
  shows "P (and_then m f)"
  using assms by auto

text \<open>\<open>merge_records\<close> returns a row for every pair of records.\<close>

lemma cid_total:
  "\<exists>cid. (if str_true isbn13 then Inr (the isbn13)
          else stable_hash_id env [PStr a, PStr b,
                 py_or env (choose_survivor env (of_str p) (of_str q) pref) (PStr []), PStr d]) = Inr cid"
  by (simp add: publisher_item stable_hash_id_strs)

lemma merge_records_steps:
  obtains pub_g pub_gg pub_year amt_gg amt_g where
    "iso_date env (dict_get g ''pub_date'') = Inr pub_g"
    "(if gg \<noteq> [] then iso_date env (dict_get gg ''pub_date'') else Inr None) = Inr pub_gg"
    "year_of env (choose_survivor env (of_str pub_g) (of_str pub_gg) ''goodreads'') = Inr pub_year"
    "safe_decimal env (if gg \<noteq> [] then dict_get gg ''price_amount'' else PNone) = Inr amt_gg"
    "safe_decimal env (dict_get g ''price_amount'') = Inr amt_g"
proof -
  obtain pub_g where A: "iso_date env (dict_get g ''pub_date'') = Inr pub_g"
    using iso_date_total by blast
  obtain pub_gg where B: "(if gg \<noteq> [] then iso_date env (dict_get gg ''pub_date'') else Inr None) = Inr pub_gg"
    using iso_date_total [of env "dict_get gg ''pub_date''"] by (cases "gg \<noteq> []") auto
  obtain pub_year where C: "year_of env (choose_survivor env (of_str pub_g) (of_str pub_gg) ''goodreads'') = Inr pub_year"
    using year_of_total [OF choose_survivor_str] by blast
  obtain amt_gg where D: "safe_decimal env (if gg \<noteq> [] then dict_get gg ''price_amount'' else PNone) = Inr amt_gg"
    using safe_decimal_total by blast
  obtain amt_g where E: "safe_decimal env (dict_get g ''price_amount'') = Inr amt_g"
    using safe_decimal_total by blast
  from A B C D E that show ?thesis by blast
qed

lemma price_step:
  "safe_decimal env pg = Inr amt_g \<Longrightarrow>
   (if truthy env (of_float amt_gg) then Inr amt_gg else safe_decimal env pg)
     = Inr (if truthy env (of_float amt_gg) then amt_gg else amt_g)"
  by simp

lemma merge_records_total: "\<exists>row. merge_records env g gg = Inr row"
proof -
  obtain pub_g pub_gg pub_year amt_gg amt_g where
    A: "iso_date env (dict_get g ''pub_date'') = Inr pub_g" and
    B: "(if gg \<noteq> [] then iso_date env (dict_get gg ''pub_date'') else Inr None) = Inr pub_gg" and
    C: "year_of env (choose_survivor env (of_str pub_g) (of_str pub_gg) ''goodreads'') = Inr pub_year" and
    D: "safe_decimal env (if gg \<noteq> [] then dict_get gg ''price_amount'' else PNone) = Inr amt_gg" and
    E: "safe_decimal env (dict_get g ''price_amount'') = Inr amt_g"
    by (rule merge_records_steps)
  show ?thesis
    unfolding merge_records_def Let_def
    apply (simp only: A B C D price_step [OF E] and_then.simps)
    apply (rule and_then_total)
     apply (rule cid_total)
    apply (rule exI)
    apply (rule refl)
    done
qed

lemmas pipeline_defs = run_pipeline_def deduplicate_def sort_values_def row_score_def notnull_def
  merge_one_def match_google_def gid_of_def build_indexes_def index_record_def setdefault_def
  canonical_id_def argsort_stable_def argsort_later_first_def

section \<open>The matcher\<close>



section \<open>The pipeline as a whole\<close>

text \<open>
  Two runs over the same records differ in the timestamp only; the merged rows do
  not depend on it.
\<close>

lemma merge_one_ts:
  "\<exists>merged d1 d2. merge_one env idx ts1 g = Inr (merged, d1) \<and> merge_one env idx ts2 g = Inr (merged, d2)
      \<and> canonical_id d1 = canonical_id merged \<and> canonical_id d2 = canonical_id merged"
proof -
  obtain matched how where m: "match_google env idx g = (matched, how)"
    by (cases "match_google env idx g") auto
  obtain row where "merge_records env g (case matched of None \<Rightarrow> [] | Some r \<Rightarrow> r) = Inr row"
    using merge_records_total by blast
  with m show ?thesis
    by (simp add: merge_one_def canonical_id_def dict_get_def)
qed

lemma merge_all_ts:
  "\<exists>rows ds1 ds2. merge_all env idx ts1 gs = Inr (rows, ds1) \<and> merge_all env idx ts2 gs = Inr (rows, ds2)
      \<and> map canonical_id ds1 = map canonical_id rows \<and> map canonical_id ds2 = map canonical_id rows"
proof (induction gs)
  case Nil
  show ?case by simp
next
  case (Cons g gs)
  from Cons.IH obtain rows ds1 ds2 where
    ih: "merge_all env idx ts1 gs = Inr (rows, ds1)" "merge_all env idx ts2 gs = Inr (rows, ds2)"
        "map canonical_id ds1 = map canonical_id rows" "map canonical_id ds2 = map canonical_id rows"
    by blast
  obtain merged d1 d2 where
    one: "merge_one env idx ts1 g = Inr (merged, d1)" "merge_one env idx ts2 g = Inr (merged, d2)"
         "canonical_id d1 = canonical_id merged" "canonical_id d2 = canonical_id merged"
    using merge_one_ts by blast
  from ih one show ?case by simp
qed

lemma drop_duplicates_fresh:
  "row \<in> set (drop_duplicates seen rows) \<Longrightarrow> dict_get row ''canonical_id'' \<notin> set seen"
proof (induction rows arbitrary: seen)
  case Nil
  then show ?case by simp
next
  case (Cons r rows)
  show ?case
  proof (cases "dict_get r ''canonical_id'' \<in> set seen")
    case True
    with Cons show ?thesis by simp
  next
    case False
    with Cons.prems have "row = r \<or> row \<in> set (drop_duplicates (dict_get r ''canonical_id'' # seen) rows)"
      by simp
    then show ?thesis
    proof
      assume "row = r" with False show ?thesis by simp
    next
      assume "row \<in> set (drop_duplicates (dict_get r ''canonical_id'' # seen) rows)"
      from Cons.IH [OF this] show ?thesis by simp
    qed
  qed
qed

lemma drop_duplicates_distinct:
  "distinct (map canonical_id (drop_duplicates seen rows))"
proof (induction rows arbitrary: seen)
  case Nil
  show ?case by simp
next
  case (Cons r rows)
  have "canonical_id r \<notin> canonical_id ` set (drop_duplicates (dict_get r ''canonical_id'' # seen) rows)"
  proof
    assume "canonical_id r \<in> canonical_id ` set (drop_duplicates (dict_get r ''canonical_id'' # seen) rows)"
    then obtain x where x: "x \<in> set (drop_duplicates (dict_get r ''canonical_id'' # seen) rows)"
      and eq: "canonical_id x = canonical_id r" by auto
    from drop_duplicates_fresh [OF x] eq show False by (simp add: canonical_id_def)
  qed
  with Cons show ?case by (simp add: canonical_id_def)
qed

lemma deduplicate_distinct: "distinct (map canonical_id (deduplicate env rows))"
  by (simp add: deduplicate_def drop_duplicates_distinct)

text \<open>
  C1. Determinism: two runs of the engine over identical primary and secondary
  collections both return, with identical canonical record sets and identical
  \<^verbatim>\<open>canonical_id\<close> values in the detail ledger; only the timestamp of the run differs.
\<close>

theorem run_pipeline_deterministic:
  "\<exists>final detail1 detail2.
      run_pipeline env ts1 gr_recs recs = Inr (final, detail1)
    \<and> run_pipeline env ts2 gr_recs recs = Inr (final, detail2)
    \<and> map canonical_id detail1 = map canonical_id detail2"
proof -
  obtain rows ds1 ds2 where
    "merge_all env (build_indexes env recs) ts1 gr_recs = Inr (rows, ds1)"
    "merge_all env (build_indexes env recs) ts2 gr_recs = Inr (rows, ds2)"
    "map canonical_id ds1 = map canonical_id rows" "map canonical_id ds2 = map canonical_id rows"
    using merge_all_ts by blast
  then show ?thesis by (simp add: run_pipeline_def)
qed

theorem run_pipeline_deterministic_witness:
  "\<exists>final detail1 detail2.
      run_pipeline env0 ''2024-01-01T00:00:00Z''
        [[(''id'', PStr ''1''), (''isbn13'', PStr ''9780000000001''), (''title'', PStr ''A'')],
         [(''id'', PStr ''2''), (''title'', PStr ''B''), (''authors'', PList [PStr ''C D''])]]
        [[(''gb_id'', PStr ''2''), (''title'', PStr ''B''), (''pub_date'', PStr ''1999'')]]
        = Inr (final, detail1)
    \<and> run_pipeline env0 ''2025-06-30T12:00:00Z''
        [[(''id'', PStr ''1''), (''isbn13'', PStr ''9780000000001''), (''title'', PStr ''A'')],
         [(''id'', PStr ''2''), (''title'', PStr ''B''), (''authors'', PList [PStr ''C D''])]]
        [[(''gb_id'', PStr ''2''), (''title'', PStr ''B''), (''pub_date'', PStr ''1999'')]]
        = Inr (final, detail2)
    \<and> map canonical_id detail1 = map canonical_id detail2"
  by (rule run_pipeline_deterministic)

text \<open>
  C8. Output uniqueness: every run returns, and in the deduplicated canonical record
  set no two rows share a \<^verbatim>\<open>canonical_id\<close>.
\<close>

theorem output_ids_distinct:
  "\<exists>final detail. run_pipeline env ts gr_recs recs = Inr (final, detail)
      \<and> distinct (map canonical_id final)"
proof -
  obtain rows ds where "merge_all env (build_indexes env recs) ts gr_recs = Inr (rows, ds)"
    using merge_all_ts [of env _ ts gr_recs ts] by blast
  then show ?thesis by (simp add: run_pipeline_def deduplicate_distinct)
qed

text \<open>
  Two primary records with the same ISBN-13 and no secondary record: one row is left,
  and the ledger still has both.
\<close>

theorem output_ids_distinct_witness:
  "\<exists>final detail.
      run_pipeline env0 ''t''
        [[(''id'', PStr ''1''), (''isbn13'', PStr ''9780000000001''), (''title'', PStr ''A'')],
         [(''id'', PStr ''2''), (''isbn13'', PStr ''9780000000001''), (''title'', PStr ''A''),
          (''publisher'', PStr ''P'')]]
        [] = Inr (final, detail)
    \<and> distinct (map canonical_id final)
    \<and> map canonical_id final = [PStr ''9780000000001'']
    \<and> length detail = 2"
proof -
  let ?run = "run_pipeline env0 ''t''
        [[(''id'', PStr ''1''), (''isbn13'', PStr ''9780000000001''), (''title'', PStr ''A'')],
         [(''id'', PStr ''2''), (''isbn13'', PStr ''9780000000001''), (''title'', PStr ''A''),
          (''publisher'', PStr ''P'')]]
        []"
  have ev: "map_sum id (\<lambda>(final, detail). (map canonical_id final, length detail)) ?run
              = Inr ([PStr ''9780000000001''], 2)"
    by (simp add: pipeline_defs merge_defs norm_defs str_defs char_defs env_defs upt_rec)
  from output_ids_distinct [of env0 "''t''" _ "[]"] obtain final detail where
    run: "?run = Inr (final, detail)" and dist: "distinct (map canonical_id final)"
    by blast
  from ev run have "map canonical_id final = [PStr ''9780000000001'']" "length detail = 2"
    by simp_all
  with run dist show ?thesis
    by (intro exI [of _ final] exI [of _ detail] conjI)
qed

section \<open>The indexes\<close>












section \<open>The merged record\<close>

text \<open>Fields of the row \<open>merge_records\<close> returns, from the values its steps produce.\<close>

lemma merge_records_pub_price:
  assumes A: "iso_date env (dict_get g ''pub_date'') = Inr pub_g"
      and B: "(if gg \<noteq> [] then iso_date env (dict_get gg ''pub_date'') else Inr None) = Inr pub_gg"
      and D: "safe_decimal env (if gg \<noteq> [] then dict_get gg ''price_amount'' else PNone) = Inr amt_gg"
      and E: "safe_decimal env (dict_get g ''price_amount'') = Inr amt_g"
  shows "\<exists>row. merge_records env g gg = Inr row
      \<and> dict_get row ''pub_date'' = choose_survivor env (of_str pub_g) (of_str pub_gg) ''goodreads''
      \<and> dict_get row ''price_amount'' = of_float (if truthy env (of_float amt_gg) then amt_gg else amt_g)
      \<and> dict_get row ''price_currency'' =
          of_str (str_or (normalize_currency env (if gg \<noteq> [] then dict_get gg ''price_currency'' else PNone))
                         (normalize_currency env (dict_get g ''price_currency'')))"
proof -
  obtain pub_year where C: "year_of env (choose_survivor env (of_str pub_g) (of_str pub_gg) ''goodreads'') = Inr pub_year"
    using year_of_total [OF choose_survivor_str] by blast
  show ?thesis
    unfolding merge_records_def Let_def
    apply (simp only: A B C D price_step [OF E] and_then.simps)
    apply (rule and_then_total)
     apply (rule cid_total)
    apply (rule exI)
    apply (rule conjI)
     apply (rule refl)
    apply (simp only: dict_get_def map_of.simps fst_conv snd_conv)
    apply simp
    done
qed

lemma collapse_ws_nonempty: "s \<noteq> [] \<Longrightarrow> collapse_ws False s \<noteq> []"
  by (cases s) auto

lemma normalize_str_nonempty: "normalize_str env v = Some s \<Longrightarrow> s \<noteq> []"
  by (auto simp: normalize_str_def Let_def sub_spaces_def isdigit_def
           intro!: collapse_ws_nonempty split: if_splits)

lemma year_item:
  fixes env :: "'f env"
  shows "py_str env (py_or env (of_nat_opt y) (PStr [])) = year_text_nonzero (of_nat_opt y :: 'f pyval)"
  by (cases y) (auto simp: py_or_def)

lemma text_of_str: "text_or_empty (of_str a) = or_empty a"
  by (cases a) (auto simp: or_empty_def)

lemma cid_step:
  "(if str_true isbn13 then Inr (the isbn13)
    else stable_hash_id env [PStr a, PStr b,
           py_or env (choose_survivor env (of_str p) (of_str q) pref) (PStr []), PStr d])
   = Inr (if str_true isbn13 then the isbn13
          else sha1_hexdigest env
                 (a @ ''||'' @ b @ ''||'' @ text_or_empty (choose_survivor env (of_str p) (of_str q) pref)
                  @ ''||'' @ d))"
  by (simp add: publisher_item stable_hash_id_strs)

lemma cell_identity:
  "PStr (if str_true (str_or (normalize_str env a) (normalize_str env b))
         then the (str_or (normalize_str env a) (normalize_str env b))
         else sha1_hexdigest env
                (or_empty tn @ ''||'' @ or_empty fa @ ''||'' @ text_or_empty pub @ ''||''
                 @ py_str env (py_or env (of_nat_opt py) (PStr []))))
   = identity_of env (of_str (str_or (normalize_str env a) (normalize_str env b)))
       (of_str tn) (of_str fa) pub (of_nat_opt py)"
  by (cases "normalize_str env a"; cases "normalize_str env b")
     (auto simp: identity_of_def str_or_def text_of_str year_item dest: normalize_str_nonempty)

lemma merge_records_identity:
  "\<exists>row. merge_records env g gg = Inr row
      \<and> dict_get row ''isbn13'' =
          of_str (str_or (normalize_str env (dict_get g ''isbn13''))
                         (normalize_str env (if gg \<noteq> [] then dict_get gg ''isbn13'' else PNone)))
      \<and> dict_get row ''title_normalized'' = of_str (normalize_title env (dict_get row ''title''))
      \<and> dict_get row ''canonical_id'' =
          identity_of env (dict_get row ''isbn13'') (dict_get row ''title_normalized'')
            (dict_get row ''first_author'') (dict_get row ''publisher'') (dict_get row ''pub_year'')"
proof -
  obtain pub_g pub_gg pub_year amt_gg amt_g where
    A: "iso_date env (dict_get g ''pub_date'') = Inr pub_g" and
    B: "(if gg \<noteq> [] then iso_date env (dict_get gg ''pub_date'') else Inr None) = Inr pub_gg" and
    C: "year_of env (choose_survivor env (of_str pub_g) (of_str pub_gg) ''goodreads'') = Inr pub_year" and
    D: "safe_decimal env (if gg \<noteq> [] then dict_get gg ''price_amount'' else PNone) = Inr amt_gg" and
    E: "safe_decimal env (dict_get g ''price_amount'') = Inr amt_g"
    by (rule merge_records_steps)
  show ?thesis
    unfolding merge_records_def Let_def
    apply (simp only: A B C D price_step [OF E] cid_step and_then.simps)
    apply (subst cell_identity)
    apply (rule exI)
    apply (rule conjI)
     apply (rule refl)
    apply (simp add: dict_get_def)
    done
qed

lemma iso_date_none: "iso_date env PNone = Inr None"
  by (simp add: iso_date_def)

lemma iso_date_example_fallback:
  "date_parser env = None \<Longrightarrow> iso_date env (PStr ''2020-05-01'') = Inr (Some ''2020-05-01'')"
  by (simp add: norm_defs str_defs char_defs)

lemma iso_date_example_raise:
  "date_parser env = Some parse \<Longrightarrow> parse ''2020-05-01'' = Inl e \<Longrightarrow>
   iso_date env (PStr ''2020-05-01'') = Inr (Some ''2020-05-01'')"
  by (simp add: norm_defs str_defs char_defs)

lemma iso_date_example_parsed:
  "date_parser env = Some parse \<Longrightarrow> parse ''2020-05-01'' = Inr (2020, 5, 1) \<Longrightarrow>
   iso_date env (PStr ''2020-05-01'') = Inr (Some ''2020-05'')"
  by (simp add: norm_defs str_defs char_defs)

lemma merge_records_null_date:
  assumes g: "dict_get g ''pub_date'' = PNone"
      and gg: "dict_get gg ''pub_date'' = v" "v \<noteq> PNone"
      and d: "iso_date env v = Inr d"
  shows "\<exists>row. merge_records env g gg = Inr row \<and> dict_get row ''pub_date'' = of_str d"
proof -
  from gg have ne: "gg \<noteq> []" by (auto simp: dict_get_def)
  obtain amt_gg amt_g where
    D: "safe_decimal env (if gg \<noteq> [] then dict_get gg ''price_amount'' else PNone) = Inr amt_gg" and
    E: "safe_decimal env (dict_get g ''price_amount'') = Inr amt_g"
    using safe_decimal_total by metis
  have A: "iso_date env (dict_get g ''pub_date'') = Inr None"
    using g by (simp add: iso_date_none)
  have B: "(if gg \<noteq> [] then iso_date env (dict_get gg ''pub_date'') else Inr None) = Inr d"
    using ne gg d by simp
  from merge_records_pub_price [OF A B D E] show ?thesis
    by (auto simp: choose_survivor_def)
qed

lemma merge_records_unmatched_price:
  assumes t: "dict_get g ''title'' = PNone" and a: "dict_get g ''authors'' = PNone"
      and p: "dict_get g ''pub_date'' = PNone" and n: "dict_get g ''num_pages'' = PNone"
      and E: "safe_decimal env (dict_get g ''price_amount'') = Inr (Some x)"
      and x: "float_bool env x"
  shows "\<exists>row. merge_records env g [] = Inr row
           \<and> dict_get row ''source_preference'' = PStr ''google''
           \<and> dict_get row ''most_complete_url'' = dict_get g ''url''"
proof -
  have A: "iso_date env (dict_get g ''pub_date'') = Inr None"
    using p by (simp add: iso_date_none)
  have B: "(if ([] :: 'a pydict) \<noteq> [] then iso_date env (dict_get [] ''pub_date'') else Inr None) = Inr None"
    by simp
  have C: "year_of env (choose_survivor env (of_str None) (of_str None) ''goodreads'') = Inr None"
    by (simp add: year_of_def choose_survivor_def)
  have D: "safe_decimal env (if ([] :: 'a pydict) \<noteq> [] then dict_get [] ''price_amount'' else PNone) = Inr None"
    by (simp add: safe_decimal_def)
  show ?thesis
    unfolding merge_records_def Let_def
    apply (simp only: A B C D price_step [OF E] cid_step and_then.simps)
    apply (rule exI)
    apply (rule conjI)
     apply (rule refl)
    apply (simp add: dict_get_def)
    apply (insert t a n x)
    apply (simp add: dict_get_def normalize_str_def normalize_author_def)
    done
qed

text \<open>
  C5, as the code has it. For a primary record without \<^verbatim>\<open>pub_date\<close> and a matched
  secondary record with \<^verbatim>\<open>pub_date = "2020-05-01"\<close> the survivor is the secondary's
  normalised date. That is \<^verbatim>\<open>2020-05-01\<close> on the regex fallback (no \<^verbatim>\<open>dateutil\<close>, or the
  parser raises), and \<^verbatim>\<open>2020-05\<close> when the parser reads the date: line 171 keeps the
  day only when it differs from the placeholder 1.
\<close>

theorem null_date_survivorship:
  assumes "dict_get g ''pub_date'' = PNone"
      and "dict_get gg ''pub_date'' = PStr ''2020-05-01''"
  shows "\<exists>row. merge_records env g gg = Inr row
     \<and> (date_parser env = None \<longrightarrow> dict_get row ''pub_date'' = PStr ''2020-05-01'')
     \<and> (\<forall>parse e. date_parser env = Some parse \<and> parse ''2020-05-01'' = Inl e
            \<longrightarrow> dict_get row ''pub_date'' = PStr ''2020-05-01'')
     \<and> (\<forall>parse. date_parser env = Some parse \<and> parse ''2020-05-01'' = Inr (2020, 5, 1)
            \<longrightarrow> dict_get row ''pub_date'' = PStr ''2020-05'')"
proof -
  obtain d where d: "iso_date env (PStr ''2020-05-01'') = Inr d"
    using iso_date_total by blast
  from merge_records_null_date [OF assms(1) assms(2) _ d] obtain row where
    row: "merge_records env g gg = Inr row" "dict_get row ''pub_date'' = of_str d"
    by auto
  have "date_parser env = None \<Longrightarrow> d = Some ''2020-05-01''"
    using d iso_date_example_fallback [of env] by simp
  moreover have "date_parser env = Some parse \<Longrightarrow> parse ''2020-05-01'' = Inl e \<Longrightarrow> d = Some ''2020-05-01''" for parse e
    using d iso_date_example_raise [of env parse e] by simp
  moreover have "date_parser env = Some parse \<Longrightarrow> parse ''2020-05-01'' = Inr (2020, 5, 1) \<Longrightarrow> d = Some ''2020-05''" for parse
    using d iso_date_example_parsed [of env parse] by simp
  ultimately show ?thesis using row by auto
qed

theorem null_date_survivorship_witness:
  "(\<exists>row. merge_records env0 [(''id'', PStr ''1''), (''title'', PStr ''T''), (''pub_date'', PNone)] [(''gb_id'', PStr ''1''), (''title'', PStr ''T''), (''pub_date'', PStr ''2020-05-01'')] = Inr row \<and> dict_get row ''pub_date'' = PStr ''2020-05-01'')
   \<and> (\<exists>row. merge_records env_dateutil [(''id'', PStr ''1''), (''title'', PStr ''T''), (''pub_date'', PNone)] [(''gb_id'', PStr ''1''), (''title'', PStr ''T''), (''pub_date'', PStr ''2020-05-01'')] = Inr row \<and> dict_get row ''pub_date'' = PStr ''2020-05'')"
  using null_date_survivorship [of "[(''id'', PStr ''1''), (''title'', PStr ''T''), (''pub_date'', PNone)]" "[(''gb_id'', PStr ''1''), (''title'', PStr ''T''), (''pub_date'', PStr ''2020-05-01'')]" env0]
        null_date_survivorship [of "[(''id'', PStr ''1''), (''title'', PStr ''T''), (''pub_date'', PNone)]" "[(''gb_id'', PStr ''1''), (''title'', PStr ''T''), (''pub_date'', PStr ''2020-05-01'')]" env_dateutil]
  by (simp add: dict_get_def env_defs)

text \<open>
  C5 as stated fails where \<^verbatim>\<open>dateutil\<close> is installed and parses the date: the merged
  \<^verbatim>\<open>pub_date\<close> is \<^verbatim>\<open>2020-05\<close>.
\<close>

theorem null_date_full_precision_counterexample:
  "\<exists>row. merge_records env_dateutil [(''id'', PStr ''1''), (''title'', PStr ''T''), (''pub_date'', PNone)] [(''gb_id'', PStr ''1''), (''title'', PStr ''T''), (''pub_date'', PStr ''2020-05-01'')] = Inr row
       \<and> dict_get row ''pub_date'' = PStr ''2020-05''
       \<and> dict_get row ''pub_date'' \<noteq> PStr ''2020-05-01''"
proof -
  have d: "iso_date env_dateutil (PStr ''2020-05-01'') = Inr (Some ''2020-05'')"
    using iso_date_example_parsed
            [of env_dateutil "\<lambda>s. if s = ''2020-05-01'' then Inr (2020, 5, 1) else Inl ValueError"]
    by (simp add: env_defs)
  have "\<exists>row. merge_records env_dateutil [(''id'', PStr ''1''), (''title'', PStr ''T''), (''pub_date'', PNone)] [(''gb_id'', PStr ''1''), (''title'', PStr ''T''), (''pub_date'', PStr ''2020-05-01'')] = Inr row \<and> dict_get row ''pub_date'' = of_str (Some ''2020-05'')"
    by (rule merge_records_null_date [OF _ _ _ d]) (simp_all add: dict_get_def)
  then show ?thesis by auto
qed




text \<open>
  C10. An unmatched primary record can be marked \<^verbatim>\<open>source_preference = "google"\<close>: the
  secondary side's score counts the merged \<^verbatim>\<open>price_amount\<close>, which falls back to the
  primary's price. A primary record with no match, with null title, authors, pub_date
  and num_pages and with a price that parses to a non-zero amount is merged with
  \<^verbatim>\<open>source_preference = "google"\<close>, and \<^verbatim>\<open>most_complete_url\<close> is still the primary's url.
\<close>

theorem unmatched_google_preference:
  assumes "match_google env idx g = (None, ''none'')"
      and "dict_get g ''title'' = PNone" and "dict_get g ''authors'' = PNone"
      and "dict_get g ''pub_date'' = PNone" and "dict_get g ''num_pages'' = PNone"
      and "safe_decimal env (dict_get g ''price_amount'') = Inr (Some x)"
      and "float_bool env x"
  shows "\<exists>row detail. merge_one env idx ts g = Inr (row, detail)
           \<and> dict_get detail ''from_google'' = PBool False
           \<and> dict_get detail ''merge_method'' = PStr ''none''
           \<and> dict_get row ''source_preference'' = PStr ''google''
           \<and> dict_get row ''most_complete_url'' = dict_get g ''url''"
proof -
  from merge_records_unmatched_price [OF assms(2-7)] obtain row where
    "merge_records env g [] = Inr row"
    "dict_get row ''source_preference'' = PStr ''google''"
    "dict_get row ''most_complete_url'' = dict_get g ''url''"
    by blast
  with assms(1) show ?thesis
    by (simp add: merge_one_def dict_get_def)
qed

theorem unmatched_google_preference_witness:
  "\<exists>row detail. merge_one env0 (build_indexes env0 []) ''t'' [(''id'', PStr ''1''), (''price_amount'', PStr ''12''), (''url'', PStr ''https://www.goodreads.com/book/show/1'')] = Inr (row, detail)
      \<and> dict_get detail ''from_google'' = PBool False
      \<and> dict_get detail ''merge_method'' = PStr ''none''
      \<and> dict_get row ''source_preference'' = PStr ''google''
      \<and> dict_get row ''most_complete_url'' = PStr ''https://www.goodreads.com/book/show/1''"
proof -
  have m: "match_google env0 (build_indexes env0 []) [(''id'', PStr ''1''), (''price_amount'', PStr ''12''), (''url'', PStr ''https://www.goodreads.com/book/show/1'')] = (None, ''none'')"
    by (simp add: match_google_def build_indexes_def gid_of_def Let_def norm_defs)
  have p: "safe_decimal env0 (dict_get [(''id'', PStr ''1''), (''price_amount'', PStr ''12''), (''url'', PStr ''https://www.goodreads.com/book/show/1'')] ''price_amount'') = Inr (Some 12)"
    by (simp add: norm_defs str_defs char_defs env_defs)
  have nz: "float_bool env0 12"
    by (simp add: env_defs)
  from unmatched_google_preference [OF m _ _ _ _ p nz, of "''t''"] show ?thesis
    by (simp add: dict_get_def)
qed

text \<open>
  C3, as the code has it. The \<^verbatim>\<open>canonical_id\<close> of every merged row is its ISBN-13 when it
  has one (the primary's normalised ISBN-13, else the secondary's), and otherwise the
  digest of normalised title, first author, publisher and \<^verbatim>\<open>pub_year\<close> as a string, joined
  with \<^verbatim>\<open>||\<close>, where null gives the empty string and so does the year 0
  (\<^verbatim>\<open>str(pub_year or "")\<close>, line 281).
\<close>

theorem canonical_identity:
  "\<exists>row. merge_records env g gg = Inr row
      \<and> dict_get row ''isbn13'' =
          of_str (str_or (normalize_str env (dict_get g ''isbn13''))
                         (normalize_str env (if gg \<noteq> [] then dict_get gg ''isbn13'' else PNone)))
      \<and> dict_get row ''title_normalized'' = of_str (normalize_title env (dict_get row ''title''))
      \<and> canonical_id row =
          identity_of env (dict_get row ''isbn13'') (dict_get row ''title_normalized'')
            (dict_get row ''first_author'') (dict_get row ''publisher'') (dict_get row ''pub_year'')"
  using merge_records_identity [of env g gg] by (simp add: canonical_id_def)

text \<open>The example of the specification: no ISBN-13, no match, published 1999.\<close>

theorem canonical_identity_witness:
  "\<exists>row. merge_records env0 [(''id'', PStr ''1''), (''isbn13'', PNone), (''title'', PStr ''The Book''),
      (''authors'', PList [PStr ''A B'']), (''publisher'', PStr ''Pub''), (''pub_date'', PStr ''1999'')] [] = Inr row
      \<and> canonical_id row = PStr (sha1_hexdigest env0 ''the book||A B||Pub||1999'')"
proof -
  have cells: "map_sum id
      (\<lambda>row. (dict_get row ''isbn13'', dict_get row ''title_normalized'', dict_get row ''first_author'',
              dict_get row ''publisher'', dict_get row ''pub_year''))
      (merge_records env0 [(''id'', PStr ''1''), (''isbn13'', PNone), (''title'', PStr ''The Book''),
      (''authors'', PList [PStr ''A B'']), (''publisher'', PStr ''Pub''), (''pub_date'', PStr ''1999'')] [])
    = Inr (PNone, PStr ''the book'', PStr ''A B'', PStr ''Pub'', PInt 1999)"
    by (simp add: merge_defs norm_defs str_defs char_defs env_defs)
  from canonical_identity [of env0 "[(''id'', PStr ''1''), (''isbn13'', PNone), (''title'', PStr ''The Book''),
      (''authors'', PList [PStr ''A B'']), (''publisher'', PStr ''Pub''), (''pub_date'', PStr ''1999'')]" "[]"] obtain row where
    row: "merge_records env0 [(''id'', PStr ''1''), (''isbn13'', PNone), (''title'', PStr ''The Book''),
      (''authors'', PList [PStr ''A B'']), (''publisher'', PStr ''Pub''), (''pub_date'', PStr ''1999'')] [] = Inr row"
    and cid: "canonical_id row =
          identity_of env0 (dict_get row ''isbn13'') (dict_get row ''title_normalized'')
            (dict_get row ''first_author'') (dict_get row ''publisher'') (dict_get row ''pub_year'')"
    by blast
  from cells row cid have "canonical_id row = PStr (sha1_hexdigest env0 ''the book||A B||Pub||1999'')"
    by (simp add: identity_of_def str_defs char_defs)
  with row show ?thesis by blast
qed

text \<open>
  C3 as stated fails for the year 0: with \<^verbatim>\<open>pub_date = "0000"\<close> (read by the fallback
  pattern) the row has \<^verbatim>\<open>pub_year = 0\<close>, whose string is \<^verbatim>\<open>0\<close>, and the text that is hashed
  ends with the empty string.
\<close>

theorem year_zero_identity_counterexample:
  "\<exists>row. merge_records env0 [(''id'', PStr ''1''), (''isbn13'', PNone), (''title'', PStr ''The Book''),
      (''authors'', PList [PStr ''A B'']), (''publisher'', PStr ''Pub''), (''pub_date'', PStr ''0000'')] [] = Inr row
      \<and> dict_get row ''pub_year'' = PInt 0
      \<and> canonical_id row = PStr (sha1_hexdigest env0 ''the book||A B||Pub||'')
      \<and> identity_claimed env0 (dict_get row ''isbn13'') (dict_get row ''title_normalized'')
            (dict_get row ''first_author'') (dict_get row ''publisher'') (dict_get row ''pub_year'')
          = PStr (sha1_hexdigest env0 ''the book||A B||Pub||0'')
      \<and> canonical_id row \<noteq>
          identity_claimed env0 (dict_get row ''isbn13'') (dict_get row ''title_normalized'')
            (dict_get row ''first_author'') (dict_get row ''publisher'') (dict_get row ''pub_year'')"
proof -
  have cells: "map_sum id
      (\<lambda>row. (canonical_id row, dict_get row ''isbn13'', dict_get row ''title_normalized'',
              dict_get row ''first_author'', dict_get row ''publisher'', dict_get row ''pub_year''))
      (merge_records env0 [(''id'', PStr ''1''), (''isbn13'', PNone), (''title'', PStr ''The Book''),
      (''authors'', PList [PStr ''A B'']), (''publisher'', PStr ''Pub''), (''pub_date'', PStr ''0000'')] [])
    = Inr (PStr (sha1_hexdigest env0 ''the book||A B||Pub||''), PNone, PStr ''the book'', PStr ''A B'',
           PStr ''Pub'', PInt 0)"
    by (simp add: canonical_id_def merge_defs norm_defs str_defs char_defs env_defs)
  obtain row where row: "merge_records env0 [(''id'', PStr ''1''), (''isbn13'', PNone), (''title'', PStr ''The Book''),
      (''authors'', PList [PStr ''A B'']), (''publisher'', PStr ''Pub''), (''pub_date'', PStr ''0000'')] [] = Inr row"
    using merge_records_total by blast
  from cells row have
    "dict_get row ''pub_year'' = PInt 0"
    "canonical_id row = PStr (sha1_hexdigest env0 ''the book||A B||Pub||'')"
    "identity_claimed env0 (dict_get row ''isbn13'') (dict_get row ''title_normalized'')
            (dict_get row ''first_author'') (dict_get row ''publisher'') (dict_get row ''pub_year'')
          = PStr (sha1_hexdigest env0 ''the book||A B||Pub||0'')"
    by (simp_all add: identity_claimed_def str_defs char_defs)
  moreover have "sha1_hexdigest env0 ''the book||A B||Pub||'' \<noteq> sha1_hexdigest env0 ''the book||A B||Pub||0''"
    by (simp add: env_defs)
  ultimately show ?thesis using row by auto
qed

section \<open>The normalisers\<close>







section \<open>Deduplication\<close>




















end
